theory Spec2Isabelle
  imports Main
begin

section \<open>The Chat wrapper component of src/components/Chat.js\<close>

text \<open>
  The component is a React class. Its instance holds the props it was given, the React
  state, and two plain fields (\<open>unsubscribeNetInfo\<close>, \<open>_unmounted\<close>). Everything it
  does to its collaborators (the chat client, the storage object, NetInfo, the logger)
  is recorded as a trace of calls, in the order the code makes them. A JavaScript
  exception is a value, and a method that throws keeps the field updates and the calls
  made before the throw.

  \<open>this.setState\<close> hands an update to React, which applies it later or not at all;
  the subsection on it below says when.
\<close>

subsection \<open>JavaScript values\<close>

text \<open>
  The values a prop or a state field may hold. An object carries whether
  \<open>LocalStorage.prototype\<close> is on its prototype chain, and a reference. Numbers are
  integers here (\<open>NaN\<close>, also falsy, is left out).
\<close>

datatype obj_class = LocalStorage | OtherClass

datatype jsval =
    JUndefined
  | JNull
  | JBool bool
  | JNum int
  | JStr string
  | JObj obj_class nat

text \<open>JavaScript's ToBoolean, as \<open>!x\<close>, \<open>x && y\<close> and \<open>if (x)\<close> use it.\<close>

fun truthy :: "jsval \<Rightarrow> bool" where
  "truthy JUndefined = False"
| "truthy JNull = False"
| "truthy (JBool b) = b"
| "truthy (JNum n) = (n \<noteq> 0)"
| "truthy (JStr s) = (s \<noteq> [])"
| "truthy (JObj k r) = True"

text \<open>\<open>x instanceof LocalStorage\<close>: false for every primitive.\<close>

fun instanceof_LocalStorage :: "jsval \<Rightarrow> bool" where
  "instanceof_LocalStorage (JObj LocalStorage r) = True"
| "instanceof_LocalStorage v = False"

text \<open>\<open>a && b\<close> yields \<open>a\<close> itself when \<open>a\<close> is falsy, and \<open>b\<close> otherwise.\<close>

definition js_and :: "jsval \<Rightarrow> jsval \<Rightarrow> jsval" where
  "js_and a b = (if truthy a then b else a)"

datatype js_error = TypeError | Error string

subsection \<open>Props, state and the instance\<close>

text \<open>
  The client is the StreamChat object, or \<open>None\<close> for \<open>null\<close>/\<open>undefined\<close>; its
  \<open>wsConnection\<close> is a connection object or \<open>None\<close> likewise. The logger is a function
  (propTypes \<open>func\<close>, defaulting to a no-op), named by a number. The storage prop is any
  value: the code itself tests its truthiness and its class.
\<close>

datatype ws_connection = WsConnection nat

record client_obj =
  wsConnection :: "ws_connection option"

record chat_props =
  client :: "client_obj option"
  logger :: nat
  storage :: jsval

record chat_state =
  channel :: jsval
  startedOffline :: bool
  isOnline :: jsval
  connectionRecovering :: bool

text \<open>\<open>this.unsubscribeNetInfo\<close>: \<open>null\<close>, or the function \<open>NetInfo.addEventListener\<close> returned.\<close>

datatype unsubscribe_handle = NullHandle | UnsubscribeFn

record chat =
  props :: chat_props
  state :: chat_state
  unsubscribeNetInfo :: unsubscribe_handle
  unmounted :: jsval

subsection \<open>Calls on the collaborators\<close>

datatype effect =
    ClientOn string
  | ClientOff jsval
  | ClientSetupConnection
  | OnlineStatusChanged string
  | StorageSetLogger nat
  | StorageClose
  | NetInfoFetch
  | NetInfoAddEventListener
  | NetInfoUnsubscribe
  | Log string string

record outcome =
  comp :: chat
  effects :: "effect list"
  raised :: "js_error option"

definition done_with :: "chat \<Rightarrow> effect list \<Rightarrow> outcome" where
  "done_with c es = \<lparr>comp = c, effects = es, raised = None\<rparr>"

definition throw :: "chat \<Rightarrow> js_error \<Rightarrow> outcome" where
  "throw c e = \<lparr>comp = c, effects = [], raised = Some e\<rparr>"

text \<open>
  Statements in sequence: the first one that throws ends the method, and what was done
  before it stays done.
\<close>

fun statements :: "chat \<Rightarrow> (chat \<Rightarrow> outcome) list \<Rightarrow> outcome" where
  "statements c [] = done_with c []"
| "statements c (s # ss) =
     (let r = s c in
      case raised r of
        Some e \<Rightarrow> r
      | None \<Rightarrow> (let r' = statements (comp r) ss
                 in r'\<lparr>effects := effects r @ effects r'\<rparr>))"

text \<open>\<open>this.props.logger('Chat component', name, {...})\<close>\<close>

definition log_call :: "string \<Rightarrow> chat \<Rightarrow> outcome" where
  "log_call name c = done_with c [Log ''Chat component'' name]"

text \<open>A method call on \<open>this.props.client\<close>: a TypeError when the client is null.\<close>

definition client_call :: "effect \<Rightarrow> chat \<Rightarrow> outcome" where
  "client_call e c =
     (case client (props c) of
        None \<Rightarrow> throw c TypeError
      | Some cl \<Rightarrow> done_with c [e])"

text \<open>\<open>ws.onlineStatusChanged({type: t})\<close>: a TypeError when \<open>ws\<close> is null.\<close>

definition ws_onlineStatusChanged :: "ws_connection option \<Rightarrow> string \<Rightarrow> chat \<Rightarrow> outcome" where
  "ws_onlineStatusChanged ws t c =
     (case ws of
        None \<Rightarrow> throw c TypeError
      | Some w \<Rightarrow> done_with c [OnlineStatusChanged t])"

subsection \<open>\<open>this.setState\<close>\<close>

text \<open>
  \<open>this.setState\<close> does not write \<open>this.state\<close> itself. It hands the update to React,
  which applies it when it next processes the instance: for a call made inside a batch
  (a React event handler, a lifecycle method) that is when the batch ends, after the
  calling code has returned; for a call made outside any batch it is before \<open>setState\<close>
  returns. React never applies an update to an instance it has unmounted. It unmounts
  an instance by calling \<open>componentWillUnmount\<close>, the one place where \<open>_unmounted\<close>
  becomes \<open>true\<close>, so here the flag also tells that React has unmounted the instance.

  \<open>setState\<close> below is the call with its update applied, which is the state that every
  later turn reads; the handlers are stated with it. \<open>in_batch\<close> is what code running
  inside the batch sees between the call and the end of the batch: the instance as the
  call left it, and the updates React holds for it.
\<close>

type_synonym update = "chat_state \<Rightarrow> chat_state"

definition apply_update :: "update \<Rightarrow> chat \<Rightarrow> chat" where
  "apply_update u c = (if truthy (unmounted c) then c else c\<lparr>state := u (state c)\<rparr>)"

definition setState :: "update \<Rightarrow> chat \<Rightarrow> outcome" where
  "setState u c = done_with (apply_update u c) []"

record in_batch =
  current :: chat
  queued :: "update list"

definition end_batch :: "in_batch \<Rightarrow> chat" where
  "end_batch b = fold apply_update (queued b) (current b)"

subsection \<open>The methods\<close>

text \<open>The state set in the constructor; the fresh \<open>{}\<close> is an object with reference 0.\<close>

definition initial_state :: chat_state where
  "initial_state =
     \<lparr>channel = JObj OtherClass 0, startedOffline = True,
      isOnline = JStr ''unknown'', connectionRecovering = False\<rparr>"

definition invalid_storage :: js_error where
  "invalid_storage = Error ''Invalid storage class provided to Chat component''"

definition verifyStorage :: "chat_props \<Rightarrow> js_error option" where
  "verifyStorage p =
     (if \<not> truthy (storage p) then None
      else if truthy (storage p) \<and> instanceof_LocalStorage (storage p) then None
      else Some invalid_storage)"

definition isOfflineModeEnabled :: "chat_props \<Rightarrow> jsval" where
  "isOfflineModeEnabled p =
     js_and (storage p) (JBool (instanceof_LocalStorage (storage p)))"

text \<open>
  The constructor. The three \<open>client.on\<close> registrations come first, then
  \<open>verifyStorage\<close>, then the logger is bound into the storage, then \<open>_unmounted\<close> is
  set to \<open>false\<close>. A constructor that throws returns no instance; the calls it made are
  kept. In \<open>this.props.storage && this.props.logger\<close> the logger, a function, is truthy.
\<close>

definition constructor :: "chat_props \<Rightarrow> (js_error + chat) \<times> effect list" where
  "constructor p =
     (case client p of
        None \<Rightarrow> (Inl TypeError, [])
      | Some cl \<Rightarrow>
          (let registered =
                 [ClientOn ''connection.changed'',
                  ClientOn ''connection.established'',
                  ClientOn ''connection.recovered'']
           in case verifyStorage p of
                Some e \<Rightarrow> (Inl e, registered)
              | None \<Rightarrow>
                  (Inr \<lparr>props = p, state = initial_state,
                        unsubscribeNetInfo = NullHandle, unmounted = JBool False\<rparr>,
                   registered @
                   (if truthy (storage p) then [StorageSetLogger (logger p)] else []))))"

text \<open>The three observers registered by the constructor.\<close>

definition on_connection_changed :: "bool \<Rightarrow> chat \<Rightarrow> outcome" where
  "on_connection_changed online c =
     (if truthy (unmounted c) then done_with c []
      else setState (\<lambda>st. st\<lparr>isOnline := JBool online,
                              connectionRecovering := \<not> online\<rparr>) c)"

definition on_connection_established :: "chat \<Rightarrow> outcome" where
  "on_connection_established c =
     (if truthy (unmounted c) then done_with c []
      else setState (\<lambda>st. st\<lparr>isOnline := JBool True,
                              connectionRecovering := False\<rparr>) c)"

definition on_connection_recovered :: "chat \<Rightarrow> outcome" where
  "on_connection_recovered c =
     (if truthy (unmounted c) then done_with c []
      else setState (\<lambda>st. st\<lparr>isOnline := JBool True,
                              connectionRecovering := False\<rparr>) c)"

definition notifyChatClient :: "bool \<Rightarrow> chat \<Rightarrow> outcome" where
  "notifyChatClient isConnected c =
     (case client (props c) of
        None \<Rightarrow> done_with c []
      | Some cl \<Rightarrow>
          (case wsConnection cl of
             None \<Rightarrow> done_with c []
           | Some w \<Rightarrow>
               (if isConnected
                then ws_onlineStatusChanged (wsConnection cl) ''online'' c
                else ws_onlineStatusChanged (wsConnection cl) ''offline'' c)))"

text \<open>
  \<open>setConnectionListener\<close> starts the one-shot fetch; \<open>fetch_resolved\<close> is the function
  given to \<open>then\<close>, and \<open>reachability_listener\<close> the one given to
  \<open>NetInfo.addEventListener\<close>. The listener is an \<open>async\<close> function: what it throws
  rejects its promise, and is \<open>raised\<close> here. \<open>isConnected\<close> and \<open>event.online\<close> are
  booleans, as NetInfo and the client deliver them. The continuation calls
  \<open>this.setState\<close> without testing \<open>_unmounted\<close>; its other two statements do not
  depend on the state.
\<close>

definition setConnectionListener :: "chat \<Rightarrow> outcome" where
  "setConnectionListener c = done_with c [NetInfoFetch]"

definition fetch_resolved :: "bool \<Rightarrow> chat \<Rightarrow> outcome" where
  "fetch_resolved isConnected c =
     statements c
       [setState (\<lambda>st. st\<lparr>isOnline := JBool isConnected,
                           startedOffline := \<not> isConnected\<rparr>),
        notifyChatClient isConnected,
        \<lambda>c. done_with (c\<lparr>unsubscribeNetInfo := UnsubscribeFn\<rparr>)
               [NetInfoAddEventListener]]"

definition reachability_listener :: "bool \<Rightarrow> chat \<Rightarrow> outcome" where
  "reachability_listener isConnected c =
     (if isConnected \<and> startedOffline (state c)
      then client_call ClientSetupConnection c
      else notifyChatClient isConnected c)"

definition componentDidMount :: "chat \<Rightarrow> outcome" where
  "componentDidMount c =
     statements c [setConnectionListener, log_call ''componentDidMount'']"

definition componentDidUpdate :: "chat \<Rightarrow> outcome" where
  "componentDidUpdate c = statements c [log_call ''componentDidUpdate'']"

text \<open>
  Teardown. \<open>this.handleEvent\<close> is a member the class never defines, so the third
  \<open>off\<close> is given \<open>undefined\<close>.
\<close>

definition call_unsubscribeNetInfo :: "chat \<Rightarrow> outcome" where
  "call_unsubscribeNetInfo c =
     (case unsubscribeNetInfo c of
        NullHandle \<Rightarrow> throw c TypeError
      | UnsubscribeFn \<Rightarrow> done_with c [NetInfoUnsubscribe])"

definition componentWillUnmount :: "chat \<Rightarrow> outcome" where
  "componentWillUnmount c =
     statements c
       [log_call ''componentWillUnmount'',
        \<lambda>c. done_with (c\<lparr>unmounted := JBool True\<rparr>) [],
        client_call (ClientOff (JStr ''connection.recovered'')),
        client_call (ClientOff (JStr ''connection.changed'')),
        client_call (ClientOff JUndefined),
        call_unsubscribeNetInfo,
        \<lambda>c. (if truthy (isOfflineModeEnabled (props c))
              then done_with c [StorageClose] else done_with c [])]"

text \<open>
  \<open>setActiveChannel\<close>, twice: with the update \<open>() => ({channel})\<close> applied, and as
  it returns when called inside a batch, where the update is still with React.
\<close>

definition setActiveChannel :: "jsval \<Rightarrow> chat \<Rightarrow> outcome" where
  "setActiveChannel ch c =
     statements c
       [log_call ''setActiveChannel'',
        \<lambda>c. (if truthy (unmounted c) then done_with c []
              else setState (\<lambda>st. st\<lparr>channel := ch\<rparr>) c)]"

definition setActiveChannel_in_batch :: "jsval \<Rightarrow> chat \<Rightarrow> in_batch \<times> effect list" where
  "setActiveChannel_in_batch ch c =
     (if truthy (unmounted c) then \<lparr>current = c, queued = []\<rparr>
      else \<lparr>current = c, queued = [\<lambda>st. st\<lparr>channel := ch\<rparr>]\<rparr>,
      [Log ''Chat component'' ''setActiveChannel''])"

text \<open>
  The published context. Its \<open>setActiveChannel\<close> field is the bound method above and is
  not a field of the record.
\<close>

record chat_context =
  ctx_client :: "client_obj option"
  ctx_channel :: jsval
  ctx_isOnline :: jsval
  ctx_connectionRecovering :: bool
  ctx_storage :: jsval
  ctx_logger :: nat
  ctx_offlineMode :: jsval

definition getContext :: "chat \<Rightarrow> chat_context" where
  "getContext c =
     \<lparr>ctx_client = client (props c),
      ctx_channel = channel (state c),
      ctx_isOnline = isOnline (state c),
      ctx_connectionRecovering = connectionRecovering (state c),
      ctx_storage = storage (props c),
      ctx_logger = logger (props c),
      ctx_offlineMode = isOfflineModeEnabled (props c)\<rparr>"

definition render :: "chat \<Rightarrow> chat_context \<times> effect list" where
  "render c = (getContext c, [Log ''Chat component'' ''Rerendering''])"

subsection \<open>Callbacks arriving over time\<close>

text \<open>
  What the outside world may invoke on a constructed instance: the three client
  observers, the continuation of the one-shot reachability fetch, the reachability
  listener, and \<open>setActiveChannel\<close> through the published context.
\<close>

datatype callback =
    ConnectionChanged bool
  | ConnectionEstablished
  | ConnectionRecovered
  | FetchResolved bool
  | ReachabilityChanged bool
  | SetActiveChannel jsval

fun fire :: "callback \<Rightarrow> chat \<Rightarrow> outcome" where
  "fire (ConnectionChanged online) c = on_connection_changed online c"
| "fire ConnectionEstablished c = on_connection_established c"
| "fire ConnectionRecovered c = on_connection_recovered c"
| "fire (FetchResolved isConnected) c = fetch_resolved isConnected c"
| "fire (ReachabilityChanged isConnected) c = reachability_listener isConnected c"
| "fire (SetActiveChannel ch) c = setActiveChannel ch c"

text \<open>
  Each callback runs in a turn of its own, and React has applied its update before the
  next one runs; one that throws does not stop the later ones. \<open>run\<close> is the instance
  after all of them, \<open>trace\<close> the calls they made.
\<close>

fun run :: "chat \<Rightarrow> callback list \<Rightarrow> chat" where
  "run c [] = c"
| "run c (cb # cbs) = run (comp (fire cb c)) cbs"

fun trace :: "chat \<Rightarrow> callback list \<Rightarrow> effect list" where
  "trace c [] = []"
| "trace c (cb # cbs) = effects (fire cb c) @ trace (comp (fire cb c)) cbs"

fun is_client_event :: "callback \<Rightarrow> bool" where
  "is_client_event (ConnectionChanged online) = True"
| "is_client_event ConnectionEstablished = True"
| "is_client_event ConnectionRecovered = True"
| "is_client_event cb = False"

fun is_fetch_resolved :: "callback \<Rightarrow> bool" where
  "is_fetch_resolved (FetchResolved isConnected) = True"
| "is_fetch_resolved cb = False"

subsection \<open>Sample instances\<close>

definition sample_client :: client_obj where
  "sample_client = \<lparr>wsConnection = Some (WsConnection 1)\<rparr>"

definition sample_props :: "jsval \<Rightarrow> chat_props" where
  "sample_props st = \<lparr>client = Some sample_client, logger = 0, storage = st\<rparr>"

text \<open>The instance the constructor returns for \<open>sample_props st\<close> when it returns one.\<close>

definition sample_chat :: "jsval \<Rightarrow> chat" where
  "sample_chat st =
     \<lparr>props = sample_props st, state = initial_state,
      unsubscribeNetInfo = NullHandle, unmounted = JBool False\<rparr>"

text \<open>
  An instance torn down before its reachability fetch resolved, and one torn down after,
  with a LocalStorage object as storage.
\<close>

definition torn_down_early :: chat where
  "torn_down_early =
     comp (componentWillUnmount (comp (componentDidMount (sample_chat JUndefined))))"

definition mounted_offline_mode :: chat where
  "mounted_offline_mode =
     comp (fetch_resolved True (comp (componentDidMount (sample_chat (JObj LocalStorage 1)))))"

section \<open>Properties\<close>

subsection \<open>Auxiliary facts\<close>

lemmas step_defs = done_with_def throw_def log_call_def client_call_def
  ws_onlineStatusChanged_def call_unsubscribeNetInfo_def setState_def apply_update_def

lemmas callback_defs = on_connection_changed_def on_connection_established_def
  on_connection_recovered_def reachability_listener_def setActiveChannel_def

lemma notifyChatClient_comp: "comp (notifyChatClient b c) = c"
  by (simp add: notifyChatClient_def step_defs split: option.splits)

lemma notifyChatClient_raised: "raised (notifyChatClient b c) = None"
  by (simp add: notifyChatClient_def step_defs split: option.splits)

lemma notifyChatClient_effects_props:
  "props c = props c' \<Longrightarrow> effects (notifyChatClient b c) = effects (notifyChatClient b c')"
  by (simp add: notifyChatClient_def step_defs split: option.splits)

lemma fetch_resolved_comp:
  "comp (fetch_resolved b c) =
     (apply_update (\<lambda>st. st\<lparr>isOnline := JBool b, startedOffline := \<not> b\<rparr>) c)
       \<lparr>unsubscribeNetInfo := UnsubscribeFn\<rparr>"
  by (simp add: fetch_resolved_def notifyChatClient_comp notifyChatClient_raised
        done_with_def setState_def Let_def)

lemma fetch_resolved_live:
  "\<not> truthy (unmounted c) \<Longrightarrow>
   comp (fetch_resolved b c) =
     c\<lparr>state := (state c)\<lparr>isOnline := JBool b, startedOffline := \<not> b\<rparr>,
       unsubscribeNetInfo := UnsubscribeFn\<rparr>"
  by (simp add: fetch_resolved_comp apply_update_def)

lemma componentDidMount_eq:
  "componentDidMount c =
     done_with c [NetInfoFetch, Log ''Chat component'' ''componentDidMount'']"
  by (simp add: componentDidMount_def setConnectionListener_def step_defs Let_def)

lemma constructor_Inr:
  "fst (constructor p) = Inr c \<Longrightarrow>
   c = \<lparr>props = p, state = initial_state, unsubscribeNetInfo = NullHandle,
        unmounted = JBool False\<rparr> \<and> client p \<noteq> None"
  by (auto simp: constructor_def Let_def split: option.splits)

lemma sample_constructed:
  "\<not> truthy st \<or> instanceof_LocalStorage st \<Longrightarrow>
   fst (constructor (sample_props st)) = Inr (sample_chat st)"
  by (auto simp: constructor_def sample_props_def sample_chat_def verifyStorage_def Let_def)

text \<open>What no callback touches: the props and the flag.\<close>

lemma fire_unmounted: "unmounted (comp (fire cb c)) = unmounted c"
  by (cases cb)
     (simp_all add: callback_defs fetch_resolved_comp notifyChatClient_comp
        notifyChatClient_raised step_defs Let_def split: option.splits)

lemma fire_props: "props (comp (fire cb c)) = props c"
  by (cases cb)
     (simp_all add: callback_defs fetch_resolved_comp notifyChatClient_comp
        notifyChatClient_raised step_defs Let_def split: option.splits)

lemma run_snoc: "run c (cbs @ [cb]) = comp (fire cb (run c cbs))"
  by (induction cbs arbitrary: c) simp_all

lemma run_unmounted: "unmounted (run c cbs) = unmounted c"
  by (induction cbs arbitrary: c) (simp_all add: fire_unmounted)

lemma run_props: "props (run c cbs) = props c"
  by (induction cbs arbitrary: c) (simp_all add: fire_props)

text \<open>Only the fetch continuation writes \<open>startedOffline\<close> and \<open>unsubscribeNetInfo\<close>.\<close>

lemma fire_startedOffline:
  "\<not> is_fetch_resolved cb \<Longrightarrow>
   startedOffline (state (comp (fire cb c))) = startedOffline (state c)"
  by (cases cb)
     (simp_all add: callback_defs notifyChatClient_comp notifyChatClient_raised
        step_defs Let_def split: option.splits)

lemma run_startedOffline:
  "\<forall>cb\<in>set cbs. \<not> is_fetch_resolved cb \<Longrightarrow>
   startedOffline (state (run c cbs)) = startedOffline (state c)"
  by (induction cbs arbitrary: c) (simp_all add: fire_startedOffline)

lemma fire_unsubscribeNetInfo:
  "\<not> is_fetch_resolved cb \<Longrightarrow>
   unsubscribeNetInfo (comp (fire cb c)) = unsubscribeNetInfo c"
  by (cases cb)
     (simp_all add: callback_defs notifyChatClient_comp notifyChatClient_raised
        step_defs Let_def split: option.splits)

lemma run_unsubscribeNetInfo:
  "\<forall>cb\<in>set cbs. \<not> is_fetch_resolved cb \<Longrightarrow>
   unsubscribeNetInfo (run c cbs) = unsubscribeNetInfo c"
  by (induction cbs arbitrary: c) (simp_all add: fire_unsubscribeNetInfo)

text \<open>The guarded callbacks leave a torn-down instance as it is.\<close>

lemma fire_guarded_after_teardown:
  "truthy (unmounted c) \<Longrightarrow> \<not> is_fetch_resolved cb \<Longrightarrow> comp (fire cb c) = c"
  by (cases cb)
     (simp_all add: callback_defs notifyChatClient_comp notifyChatClient_raised
        step_defs Let_def split: option.splits)

lemma run_guarded_after_teardown:
  "truthy (unmounted c) \<Longrightarrow> \<forall>cb\<in>set cbs. \<not> is_fetch_resolved cb \<Longrightarrow> run c cbs = c"
  by (induction cbs) (simp_all add: fire_guarded_after_teardown)

text \<open>
  The fetch continuation has no guard of its own. On a torn-down instance its update is
  not applied, but it still notifies the client and subscribes to reachability changes.
\<close>

lemma fetch_resolved_after_teardown:
  "truthy (unmounted c) \<Longrightarrow>
   comp (fetch_resolved b c) = c\<lparr>unsubscribeNetInfo := UnsubscribeFn\<rparr>
   \<and> effects (fetch_resolved b c) =
       effects (notifyChatClient b c) @ [NetInfoAddEventListener]"
  by (simp add: fetch_resolved_def notifyChatClient_comp notifyChatClient_raised
        done_with_def setState_def apply_update_def Let_def)

lemma fire_state_after_teardown:
  "truthy (unmounted c) \<Longrightarrow> state (comp (fire cb c)) = state c"
proof (cases "is_fetch_resolved cb")
  case True
  assume "truthy (unmounted c)"
  with True show ?thesis
    by (cases cb) (simp_all add: fetch_resolved_after_teardown)
next
  case False
  assume "truthy (unmounted c)"
  with False show ?thesis
    by (simp add: fire_guarded_after_teardown)
qed

lemma run_state_after_teardown:
  "truthy (unmounted c) \<Longrightarrow> state (run c cbs) = state c"
  by (induction cbs arbitrary: c)
     (simp_all add: fire_state_after_teardown fire_unmounted)

text \<open>Teardown sets the flag, whether it throws or not, and leaves the state.\<close>

lemma componentWillUnmount_unmounted:
  "unmounted (comp (componentWillUnmount c)) = JBool True"
  by (simp add: componentWillUnmount_def step_defs Let_def
      split: option.splits unsubscribe_handle.splits)

lemma componentWillUnmount_state:
  "state (comp (componentWillUnmount c)) = state c"
  by (simp add: componentWillUnmount_def step_defs Let_def
      split: option.splits unsubscribe_handle.splits)

text \<open>\<open>setActiveChannel\<close> with its update applied, and inside a batch.\<close>

lemma setActiveChannel_eq:
  "setActiveChannel ch c =
     done_with (apply_update (\<lambda>st. st\<lparr>channel := ch\<rparr>) c)
       [Log ''Chat component'' ''setActiveChannel'']"
  by (simp add: setActiveChannel_def step_defs Let_def)

lemma end_batch_setActiveChannel:
  "end_batch (fst (setActiveChannel_in_batch ch c)) = comp (setActiveChannel ch c)"
  by (simp add: setActiveChannel_in_batch_def end_batch_def setActiveChannel_eq
        done_with_def apply_update_def)

text \<open>One client event decides \<open>connectionRecovering\<close>; the other callbacks keep it.\<close>

lemma fire_connectionRecovering:
  "\<not> truthy (unmounted c) \<Longrightarrow>
   connectionRecovering (state (comp (fire cb c))) =
     (if is_client_event cb then cb = ConnectionChanged False
      else connectionRecovering (state c))"
  by (cases cb)
     (simp_all add: callback_defs fetch_resolved_comp notifyChatClient_comp
        notifyChatClient_raised step_defs Let_def split: option.splits)

lemma run_connectionRecovering:
  "\<not> truthy (unmounted c) \<Longrightarrow>
   connectionRecovering (state (run c cbs)) =
     (if filter is_client_event cbs = [] then connectionRecovering (state c)
      else last (filter is_client_event cbs) = ConnectionChanged False)"
proof (induction cbs rule: rev_induct)
  case Nil
  show ?case by simp
next
  case (snoc cb cbs)
  from snoc.prems have live: "\<not> truthy (unmounted (run c cbs))"
    by (simp add: run_unmounted)
  show ?case
    using snoc.IH [OF snoc.prems]
    by (simp add: run_snoc fire_connectionRecovering [OF live])
qed

text \<open>Teardown, by the state of the reachability handle.\<close>

lemma componentWillUnmount_null_handle:
  assumes "unsubscribeNetInfo c = NullHandle" and "client (props c) \<noteq> None"
  shows "componentWillUnmount c =
           \<lparr>comp = c\<lparr>unmounted := JBool True\<rparr>,
            effects = [Log ''Chat component'' ''componentWillUnmount'',
                       ClientOff (JStr ''connection.recovered''),
                       ClientOff (JStr ''connection.changed''),
                       ClientOff JUndefined],
            raised = Some TypeError\<rparr>"
  using assms
  by (auto simp: componentWillUnmount_def step_defs Let_def)

lemma componentWillUnmount_subscribed:
  assumes "unsubscribeNetInfo c = UnsubscribeFn" and "client (props c) \<noteq> None"
  shows "componentWillUnmount c =
           done_with (c\<lparr>unmounted := JBool True\<rparr>)
             ([Log ''Chat component'' ''componentWillUnmount'',
               ClientOff (JStr ''connection.recovered''),
               ClientOff (JStr ''connection.changed''),
               ClientOff JUndefined,
               NetInfoUnsubscribe]
              @ (if truthy (isOfflineModeEnabled (props c)) then [StorageClose] else []))"
  using assms
  by (auto simp: componentWillUnmount_def step_defs Let_def)

lemma componentWillUnmount_never_offs_established:
  "ClientOff (JStr ''connection.established'') \<notin> set (effects (componentWillUnmount c))"
  by (auto simp: componentWillUnmount_def step_defs Let_def
      split: option.splits unsubscribe_handle.splits)

lemma torn_down_early_eq:
  "torn_down_early =
     \<lparr>props = sample_props JUndefined, state = initial_state,
      unsubscribeNetInfo = NullHandle, unmounted = JBool True\<rparr>"
  by (simp add: torn_down_early_def componentDidMount_eq done_with_def
        componentWillUnmount_null_handle sample_chat_def sample_props_def)

lemma mounted_offline_mode_eq:
  "mounted_offline_mode =
     \<lparr>props = sample_props (JObj LocalStorage 1),
      state = initial_state\<lparr>isOnline := JBool True, startedOffline := False\<rparr>,
      unsubscribeNetInfo = UnsubscribeFn, unmounted = JBool False\<rparr>"
  by (simp add: mounted_offline_mode_def componentDidMount_eq done_with_def
        fetch_resolved_live sample_chat_def)

text \<open>The reachability listener of a session that started online.\<close>

lemma fire_no_setup:
  "\<not> startedOffline (state c) \<Longrightarrow> \<not> is_fetch_resolved cb \<Longrightarrow>
   ClientSetupConnection \<notin> set (effects (fire cb c))"
  by (cases cb)
     (auto simp: callback_defs notifyChatClient_def step_defs Let_def
        split: option.splits)

lemma trace_no_setup:
  "\<not> startedOffline (state c) \<Longrightarrow> \<forall>cb\<in>set cbs. \<not> is_fetch_resolved cb \<Longrightarrow>
   ClientSetupConnection \<notin> set (trace c cbs)"
  by (induction cbs arbitrary: c) (simp_all add: fire_no_setup fire_startedOffline)

lemma trace_reachability_started_online:
  "\<not> startedOffline (state c) \<Longrightarrow>
   trace c (map ReachabilityChanged bs) =
     concat (map (\<lambda>b. effects (notifyChatClient b c)) bs)"
proof (induction bs arbitrary: c)
  case Nil
  show ?case by simp
next
  case (Cons b bs)
  from Cons.prems have same: "comp (reachability_listener b c) = c"
    by (simp add: reachability_listener_def notifyChatClient_comp)
  from Cons.prems
  have "effects (reachability_listener b c) = effects (notifyChatClient b c)"
    by (simp add: reachability_listener_def)
  with Cons.IH [OF Cons.prems] same show ?case by simp
qed

subsection \<open>Late callbacks after teardown\<close>

text \<open>
  Claim C1: once \<open>componentWillUnmount\<close> has run (to its end or to a throw), the flag
  is set, and no sequence of later callbacks changes the state: not the three client
  observers nor \<open>setActiveChannel\<close>, which test \<open>_unmounted\<close> before \<open>setState\<close>; not
  the reachability listener, which never writes the state; and not the continuation of
  the one-shot fetch, whose \<open>setState\<close>, made without that test, React does not apply
  to the unmounted instance.
\<close>

theorem no_state_change_after_teardown:
  "truthy (unmounted (comp (componentWillUnmount c)))
   \<and> state (comp (componentWillUnmount c)) = state c
   \<and> state (run (comp (componentWillUnmount c)) cbs) =
       state (comp (componentWillUnmount c))"
  by (simp add: componentWillUnmount_unmounted componentWillUnmount_state
        run_state_after_teardown)

subsection \<open>Teardown\<close>

text \<open>
  Claim C2: teardown sets the flag, unregisters the three client observers and the
  reachability subscription, then closes the storage iff offline mode is enabled.
  The order and the conditional close are as claimed when the reachability handle is
  set (\<open>componentWillUnmount_subscribed\<close>), but the \<open>off\<close> calls are for
  \<open>'connection.recovered'\<close>, \<open>'connection.changed'\<close> and the undefined
  \<open>this.handleEvent\<close>: the observer of \<open>'connection.established'\<close>, registered by the
  constructor, is never unregistered (\<open>componentWillUnmount_never_offs_established\<close>).
  Below, the teardown of a mounted instance whose storage is a LocalStorage object.
\<close>

theorem teardown_leaves_established_observer:
  "fst (constructor (sample_props (JObj LocalStorage 1))) =
     Inr (sample_chat (JObj LocalStorage 1))
   \<and> ClientOn ''connection.established''
       \<in> set (snd (constructor (sample_props (JObj LocalStorage 1))))
   \<and> effects (componentWillUnmount mounted_offline_mode) =
       [Log ''Chat component'' ''componentWillUnmount'',
        ClientOff (JStr ''connection.recovered''),
        ClientOff (JStr ''connection.changed''),
        ClientOff JUndefined,
        NetInfoUnsubscribe,
        StorageClose]
   \<and> raised (componentWillUnmount mounted_offline_mode) = None
   \<and> ClientOff (JStr ''connection.established'')
       \<notin> set (effects (componentWillUnmount mounted_offline_mode))"
proof -
  have sub: "unsubscribeNetInfo mounted_offline_mode = UnsubscribeFn"
    and cl: "client (props mounted_offline_mode) \<noteq> None"
    and off: "truthy (isOfflineModeEnabled (props mounted_offline_mode))"
    by (simp_all add: mounted_offline_mode_eq sample_props_def isOfflineModeEnabled_def
          js_and_def)
  have "ClientOn ''connection.established''
          \<in> set (snd (constructor (sample_props (JObj LocalStorage 1))))"
    by (simp add: constructor_def sample_props_def verifyStorage_def Let_def)
  with off show ?thesis
    by (simp add: componentWillUnmount_subscribed [OF sub cl] done_with_def
          sample_constructed)
qed

subsection \<open>Client connectivity events\<close>

text \<open>
  Claim C3: on a constructed instance, after any sequence of callbacks (none of them
  teardown), \<open>connectionRecovering\<close> is true iff there was a client event and the most
  recent one was "connection.changed" carrying \<open>online = false\<close>. So it is false
  after "connection.established", after "connection.recovered" and after
  "connection.changed" carrying \<open>online = true\<close>; the other callbacks (reachability,
  \<open>setActiveChannel\<close>) are not relevant to it.
\<close>

theorem connectionRecovering_follows_last_client_event:
  assumes "fst (constructor p) = Inr c"
  shows "connectionRecovering (state (run c cbs)) =
           (filter is_client_event cbs \<noteq> [] \<and>
            last (filter is_client_event cbs) = ConnectionChanged False)"
proof -
  from assms have "\<not> truthy (unmounted c)" and "\<not> connectionRecovering (state c)"
    by (auto dest!: constructor_Inr simp: initial_state_def)
  then show ?thesis
    by (simp add: run_connectionRecovering)
qed

theorem connectionRecovering_follows_last_client_event_witness:
  "fst (constructor (sample_props JUndefined)) = Inr (sample_chat JUndefined)
   \<and> connectionRecovering (state (run (sample_chat JUndefined)
         [ConnectionChanged True, ConnectionChanged False, SetActiveChannel JNull]))
   \<and> \<not> connectionRecovering (state (run (sample_chat JUndefined)
         [ConnectionChanged False, ConnectionRecovered]))
   \<and> \<not> connectionRecovering (state (run (sample_chat JUndefined)
         [ConnectionChanged False, ConnectionChanged True]))"
proof -
  have h: "fst (constructor (sample_props JUndefined)) = Inr (sample_chat JUndefined)"
    by (simp add: sample_constructed)
  show ?thesis
    using h
      connectionRecovering_follows_last_client_event [OF h,
        of "[ConnectionChanged True, ConnectionChanged False, SetActiveChannel JNull]"]
      connectionRecovering_follows_last_client_event [OF h,
        of "[ConnectionChanged False, ConnectionRecovered]"]
      connectionRecovering_follows_last_client_event [OF h,
        of "[ConnectionChanged False, ConnectionChanged True]"]
    by simp
qed

subsection \<open>Construction and the storage check\<close>

text \<open>
  Claim C4, as stated: a storage argument that is not a LocalStorage instance always
  makes the constructor throw, and with no storage argument \<open>offlineMode\<close> is \<open>false\<close>.
  \<open>verifyStorage\<close> returns at once on any falsy storage, so \<open>storage = false\<close>, not
  a LocalStorage instance, is accepted; and \<open>isOfflineModeEnabled\<close> is
  \<open>storage && storage instanceof LocalStorage\<close>, which for an absent storage is
  \<open>undefined\<close>, not \<open>false\<close>.
\<close>

theorem falsy_storage_is_accepted:
  "\<not> instanceof_LocalStorage (JBool False)
   \<and> fst (constructor (sample_props (JBool False))) = Inr (sample_chat (JBool False))
   \<and> fst (constructor (sample_props JUndefined)) = Inr (sample_chat JUndefined)
   \<and> ctx_offlineMode (getContext (sample_chat JUndefined)) = JUndefined
   \<and> ctx_offlineMode (getContext (sample_chat JUndefined)) \<noteq> JBool False"
proof -
  have "ctx_offlineMode (getContext (sample_chat JUndefined)) = JUndefined"
    by (simp add: getContext_def isOfflineModeEnabled_def js_and_def
          sample_chat_def sample_props_def)
  then show ?thesis
    by (simp add: sample_constructed)
qed

text \<open>
  Claim C4, amended: given a client, construction with a truthy storage argument that
  is not a LocalStorage instance always throws the invalid-storage error; construction
  with no storage argument, or with any falsy one, always succeeds, and the published
  \<open>offlineMode\<close> is then that falsy storage value itself (\<open>undefined\<close> when there is no
  argument).
\<close>

theorem storage_check_by_truthiness:
  assumes "client p = Some cl"
  shows "(truthy (storage p) \<and> \<not> instanceof_LocalStorage (storage p) \<longrightarrow>
            fst (constructor p) = Inl invalid_storage)
         \<and> (\<not> truthy (storage p) \<longrightarrow>
              (\<exists>c. fst (constructor p) = Inr c
                 \<and> ctx_offlineMode (getContext c) = storage p
                 \<and> \<not> truthy (ctx_offlineMode (getContext c))))"
  using assms
  by (auto simp: constructor_def verifyStorage_def getContext_def isOfflineModeEnabled_def
        js_and_def Let_def)

theorem storage_check_by_truthiness_witness:
  "client (sample_props (JObj OtherClass 2)) = Some sample_client
   \<and> truthy (JObj OtherClass 2) \<and> \<not> instanceof_LocalStorage (JObj OtherClass 2)
   \<and> fst (constructor (sample_props (JObj OtherClass 2))) = Inl invalid_storage
   \<and> client (sample_props JUndefined) = Some sample_client
   \<and> \<not> truthy JUndefined
   \<and> (\<exists>c. fst (constructor (sample_props JUndefined)) = Inr c
          \<and> ctx_offlineMode (getContext c) = JUndefined)"
  using storage_check_by_truthiness [of "sample_props (JObj OtherClass 2)" sample_client]
    storage_check_by_truthiness [of "sample_props JUndefined" sample_client]
  by (auto simp: sample_props_def)

text \<open>
  Claim C8: the constructor throws the invalid-storage error exactly when there is a
  client and the storage is truthy and not a LocalStorage instance; and whenever it
  throws that error, the calls it has made are the three \<open>client.on\<close> registrations and
  nothing else, so no observer has been unregistered.
\<close>

theorem failed_construction_keeps_observers:
  "(fst (constructor p) = Inl invalid_storage \<longleftrightarrow>
      client p \<noteq> None \<and> truthy (storage p) \<and> \<not> instanceof_LocalStorage (storage p))
   \<and> (fst (constructor p) = Inl invalid_storage \<longrightarrow>
        snd (constructor p) =
          [ClientOn ''connection.changed'', ClientOn ''connection.established'',
           ClientOn ''connection.recovered''])"
  by (auto simp: constructor_def verifyStorage_def invalid_storage_def Let_def
      split: option.splits if_splits)

theorem failed_construction_keeps_observers_witness:
  "fst (constructor (sample_props (JObj OtherClass 2))) = Inl invalid_storage
   \<and> snd (constructor (sample_props (JObj OtherClass 2))) =
       [ClientOn ''connection.changed'', ClientOn ''connection.established'',
        ClientOn ''connection.recovered'']"
  using failed_construction_keeps_observers [of "sample_props (JObj OtherClass 2)"]
  by (simp add: sample_props_def)

subsection \<open>Reachability\<close>

text \<open>
  Claim C5: when the mount-time fetch resolves with \<open>false\<close>, the state has
  \<open>startedOffline = true\<close> and \<open>isOnline = false\<close>; and after any callbacks other than
  that continuation, a reachability change reporting \<open>true\<close> calls
  \<open>client._setupConnection()\<close> and nothing else: no status notification is sent.
\<close>

theorem started_offline_reconnect_sets_up_connection:
  assumes "fst (constructor p) = Inr c" and "\<forall>cb\<in>set cbs. \<not> is_fetch_resolved cb"
  shows "startedOffline (state (comp (fetch_resolved False c)))
         \<and> isOnline (state (comp (fetch_resolved False c))) = JBool False
         \<and> reachability_listener True (run (comp (fetch_resolved False c)) cbs) =
             done_with (run (comp (fetch_resolved False c)) cbs) [ClientSetupConnection]"
proof -
  let ?c1 = "comp (fetch_resolved False c)"
  from assms(1) have live: "\<not> truthy (unmounted c)"
    by (auto dest!: constructor_Inr)
  have seeded: "startedOffline (state ?c1)" "isOnline (state ?c1) = JBool False"
    by (simp_all add: fetch_resolved_live [OF live])
  from assms(2) seeded(1) have "startedOffline (state (run ?c1 cbs))"
    by (simp add: run_startedOffline)
  moreover from assms(1) have "client (props (run ?c1 cbs)) \<noteq> None"
    by (auto dest!: constructor_Inr simp: run_props fetch_resolved_live)
  ultimately have "reachability_listener True (run ?c1 cbs) =
      done_with (run ?c1 cbs) [ClientSetupConnection]"
    by (auto simp: reachability_listener_def client_call_def)
  with seeded show ?thesis by simp
qed

theorem started_offline_reconnect_sets_up_connection_witness:
  "fst (constructor (sample_props JUndefined)) = Inr (sample_chat JUndefined)
   \<and> \<not> is_fetch_resolved (ConnectionChanged False)
   \<and> \<not> is_fetch_resolved (ReachabilityChanged False)
   \<and> startedOffline (state (comp (fetch_resolved False (sample_chat JUndefined))))
   \<and> effects (reachability_listener True
        (run (comp (fetch_resolved False (sample_chat JUndefined)))
           [ConnectionChanged False, ReachabilityChanged False])) =
       [ClientSetupConnection]"
proof -
  have h: "fst (constructor (sample_props JUndefined)) = Inr (sample_chat JUndefined)"
    by (simp add: sample_constructed)
  show ?thesis
    using h started_offline_reconnect_sets_up_connection [OF h,
        of "[ConnectionChanged False, ReachabilityChanged False]"]
    by (simp add: done_with_def)
qed

text \<open>
  Claim C6: when the mount-time fetch resolves with \<open>true\<close>, the state has
  \<open>startedOffline = false\<close>; after that no sequence of callbacks (the fetch
  continuation apart, which runs once) ever calls \<open>client._setupConnection()\<close>, and a
  sequence of reachability changes makes exactly the calls of \<open>notifyChatClient\<close>, one
  per change, in order.
\<close>

theorem started_online_only_status_notifications:
  assumes "fst (constructor p) = Inr c" and "\<forall>cb\<in>set cbs. \<not> is_fetch_resolved cb"
  shows "\<not> startedOffline (state (comp (fetch_resolved True c)))
         \<and> ClientSetupConnection \<notin> set (trace (comp (fetch_resolved True c)) cbs)
         \<and> trace (comp (fetch_resolved True c)) (map ReachabilityChanged bs) =
             concat (map (\<lambda>b. effects (notifyChatClient b c)) bs)"
proof -
  let ?c1 = "comp (fetch_resolved True c)"
  from assms(1) have live: "\<not> truthy (unmounted c)"
    by (auto dest!: constructor_Inr)
  have online: "\<not> startedOffline (state ?c1)"
    by (simp add: fetch_resolved_live [OF live])
  have "props ?c1 = props c"
    by (simp add: fetch_resolved_live [OF live])
  then have "\<And>b. effects (notifyChatClient b ?c1) = effects (notifyChatClient b c)"
    by (rule notifyChatClient_effects_props)
  with trace_reachability_started_online [OF online, of bs]
  have "trace ?c1 (map ReachabilityChanged bs) =
          concat (map (\<lambda>b. effects (notifyChatClient b c)) bs)"
    by simp
  with online trace_no_setup [OF online assms(2)] show ?thesis by simp
qed

theorem started_online_only_status_notifications_witness:
  "fst (constructor (sample_props JUndefined)) = Inr (sample_chat JUndefined)
   \<and> \<not> is_fetch_resolved (ReachabilityChanged False)
   \<and> \<not> is_fetch_resolved (ReachabilityChanged True)
   \<and> ClientSetupConnection \<notin> set (trace (comp (fetch_resolved True (sample_chat JUndefined)))
         [ReachabilityChanged False, ReachabilityChanged True])
   \<and> trace (comp (fetch_resolved True (sample_chat JUndefined)))
         (map ReachabilityChanged [False, True]) =
       [OnlineStatusChanged ''offline'', OnlineStatusChanged ''online'']"
proof -
  have h: "fst (constructor (sample_props JUndefined)) = Inr (sample_chat JUndefined)"
    by (simp add: sample_constructed)
  have n: "\<And>b. effects (notifyChatClient b (sample_chat JUndefined)) =
             [OnlineStatusChanged (if b then ''online'' else ''offline'')]"
    by (simp add: notifyChatClient_def sample_chat_def sample_props_def sample_client_def
          step_defs)
  show ?thesis
    using h started_online_only_status_notifications [OF h,
        of "[ReachabilityChanged False, ReachabilityChanged True]" "[False, True]"]
    by (simp add: n)
qed

text \<open>
  Claim C10: \<open>notifyChatClient\<close> never throws and leaves the instance as it is; it
  makes one \<open>onlineStatusChanged\<close> call, of type \<open>'online'\<close> when reachable and
  \<open>'offline'\<close> otherwise, iff the client and its \<open>wsConnection\<close> are both non-null, and
  no call at all otherwise.
\<close>

theorem notifyChatClient_guarded:
  "raised (notifyChatClient isConnected c) = None
   \<and> comp (notifyChatClient isConnected c) = c
   \<and> effects (notifyChatClient isConnected c) =
       (if \<exists>cl w. client (props c) = Some cl \<and> wsConnection cl = Some w
        then [OnlineStatusChanged (if isConnected then ''online'' else ''offline'')]
        else [])"
  by (auto simp: notifyChatClient_def step_defs split: option.splits)

subsection \<open>The active channel\<close>

text \<open>
  Claim C7, as stated: \<open>setActiveChannel(X)\<close> on an instance that has not begun
  teardown, followed immediately by \<open>getContext()\<close>, gives a context whose \<open>channel\<close>
  is \<open>X\<close>. The method gives React the update \<open>() => ({channel})\<close>; called inside a
  batch, it returns with \<open>this.state\<close> as it was, and a \<open>getContext()\<close> made then
  still has the previous channel, here the initial \<open>{}\<close>.
\<close>

theorem getContext_inside_batch_has_previous_channel:
  "\<not> truthy (unmounted (sample_chat JUndefined))
   \<and> ctx_channel (getContext (current (fst
         (setActiveChannel_in_batch (JObj OtherClass 7) (sample_chat JUndefined))))) =
       JObj OtherClass 0
   \<and> ctx_channel (getContext (current (fst
         (setActiveChannel_in_batch (JObj OtherClass 7) (sample_chat JUndefined))))) \<noteq>
       JObj OtherClass 7"
  by (simp add: setActiveChannel_in_batch_def getContext_def sample_chat_def
        initial_state_def)

text \<open>
  Claim C7, amended: for any value \<open>X\<close> (null or not), \<open>setActiveChannel(X)\<close> on an
  instance that has not begun teardown gives React the update, and once React has
  applied it (at the end of the batch the call was made in, or before the call returns
  when it was made outside any batch) \<open>getContext()\<close> gives a context whose \<open>channel\<close>
  is \<open>X\<close>; a \<open>getContext()\<close> made inside the batch right after the call still gives
  the previous channel. On an instance that has begun teardown the call leaves the
  instance, so its state, as it was. It does not throw.
\<close>

theorem setActiveChannel_applied_then_getContext:
  "(\<not> truthy (unmounted c) \<longrightarrow>
      ctx_channel (getContext (comp (setActiveChannel X c))) = X)
   \<and> (truthy (unmounted c) \<longrightarrow> comp (setActiveChannel X c) = c)
   \<and> raised (setActiveChannel X c) = None
   \<and> ctx_channel (getContext (current (fst (setActiveChannel_in_batch X c)))) =
       channel (state c)
   \<and> end_batch (fst (setActiveChannel_in_batch X c)) = comp (setActiveChannel X c)
   \<and> snd (setActiveChannel_in_batch X c) = effects (setActiveChannel X c)"
proof -
  have "ctx_channel (getContext (current (fst (setActiveChannel_in_batch X c)))) =
          channel (state c)"
    and "snd (setActiveChannel_in_batch X c) = effects (setActiveChannel X c)"
    by (simp_all add: setActiveChannel_in_batch_def getContext_def setActiveChannel_eq
          done_with_def)
  then show ?thesis
    by (simp add: end_batch_setActiveChannel setActiveChannel_eq getContext_def
          done_with_def apply_update_def)
qed

theorem setActiveChannel_applied_then_getContext_witness:
  "\<not> truthy (unmounted (sample_chat JUndefined))
   \<and> ctx_channel (getContext (comp (setActiveChannel (JObj OtherClass 7)
         (sample_chat JUndefined)))) = JObj OtherClass 7
   \<and> ctx_channel (getContext (end_batch (fst (setActiveChannel_in_batch
         (JObj OtherClass 7) (sample_chat JUndefined))))) = JObj OtherClass 7
   \<and> truthy (unmounted torn_down_early)
   \<and> state (comp (setActiveChannel (JObj OtherClass 7) torn_down_early)) =
       state torn_down_early"
  using setActiveChannel_applied_then_getContext
      [of "sample_chat JUndefined" "JObj OtherClass 7"]
    setActiveChannel_applied_then_getContext [of torn_down_early "JObj OtherClass 7"]
  by (simp add: sample_chat_def torn_down_early_eq)

subsection \<open>Teardown before the reachability fetch has resolved\<close>

text \<open>
  Claim C9: on a constructed and mounted instance whose fetch continuation has not run
  (whatever other callbacks have), \<open>unsubscribeNetInfo\<close> is still \<open>null\<close>, and
  \<open>componentWillUnmount\<close> throws a TypeError at the call of it: after the flag is set
  and the three \<open>off\<close> calls are made, and before any storage close.
\<close>

theorem teardown_before_fetch_resolved_raises:
  assumes "fst (constructor p) = Inr c" and "\<forall>cb\<in>set cbs. \<not> is_fetch_resolved cb"
  shows "unsubscribeNetInfo (run (comp (componentDidMount c)) cbs) = NullHandle
         \<and> componentWillUnmount (run (comp (componentDidMount c)) cbs) =
           \<lparr>comp = (run (comp (componentDidMount c)) cbs)\<lparr>unmounted := JBool True\<rparr>,
            effects = [Log ''Chat component'' ''componentWillUnmount'',
                       ClientOff (JStr ''connection.recovered''),
                       ClientOff (JStr ''connection.changed''),
                       ClientOff JUndefined],
            raised = Some TypeError\<rparr>"
proof -
  let ?m = "run (comp (componentDidMount c)) cbs"
  from assms(1) have "unsubscribeNetInfo c = NullHandle" and cl: "client (props c) \<noteq> None"
    by (auto dest!: constructor_Inr)
  then have null: "unsubscribeNetInfo ?m = NullHandle"
    using assms(2) by (simp add: run_unsubscribeNetInfo componentDidMount_eq done_with_def)
  moreover from cl have "client (props ?m) \<noteq> None"
    by (simp add: run_props componentDidMount_eq done_with_def)
  ultimately have "componentWillUnmount ?m =
           \<lparr>comp = ?m\<lparr>unmounted := JBool True\<rparr>,
            effects = [Log ''Chat component'' ''componentWillUnmount'',
                       ClientOff (JStr ''connection.recovered''),
                       ClientOff (JStr ''connection.changed''),
                       ClientOff JUndefined],
            raised = Some TypeError\<rparr>"
    by (rule componentWillUnmount_null_handle)
  with null show ?thesis by simp
qed

theorem teardown_before_fetch_resolved_raises_witness:
  "fst (constructor (sample_props (JObj LocalStorage 1))) =
     Inr (sample_chat (JObj LocalStorage 1))
   \<and> \<not> is_fetch_resolved (ConnectionChanged False)
   \<and> raised (componentWillUnmount
        (run (comp (componentDidMount (sample_chat (JObj LocalStorage 1))))
           [ConnectionChanged False])) = Some TypeError
   \<and> StorageClose \<notin> set (effects (componentWillUnmount
        (run (comp (componentDidMount (sample_chat (JObj LocalStorage 1))))
           [ConnectionChanged False])))"
proof -
  have h: "fst (constructor (sample_props (JObj LocalStorage 1))) =
             Inr (sample_chat (JObj LocalStorage 1))"
    by (simp add: sample_constructed)
  show ?thesis
    using h teardown_before_fetch_resolved_raises [OF h, of "[ConnectionChanged False]"]
    by simp
qed

end
